theory Spec2Isabelle
  imports Complex_Main "HOL-Library.Log_Nat"
begin

section \<open>Runtime values\<close>

text \<open>
  The CLI wrapper reads the decoded output of the \<^verbatim>\<open>container\<close> binary as untyped
  records (\<^verbatim>\<open>Record<string, unknown>\<close>); the TypeScript casts (\<^verbatim>\<open>as string\<close>) are
  erased at run time. The model therefore keeps the run-time value: a decoded JSON document.
  Strings are lists of code units below 256; numbers are restricted to integers.
  An object is the list of its members in document order; as in \<^verbatim>\<open>JSON.parse\<close>, the last
  member with a given key is the one a property read sees.
  The value \<^verbatim>\<open>undefined\<close> is \<open>None\<close> of \<open>json option\<close>.
\<close>

datatype json =
    JNull
  | JBool bool
  | JNum int
  | JStr string
  | JArr "json list"
  | JObj "(string \<times> json) list"

datatype js_error = TypeError

text \<open>
  Property read \<^verbatim>\<open>v.k\<close>. Reading a property of \<^verbatim>\<open>null\<close> throws. The property names
  the wrapper reads (\<^verbatim>\<open>configuration\<close>, \<^verbatim>\<open>status\<close>, \<^verbatim>\<open>id\<close>, ...) are neither own nor
  inherited properties of strings, numbers, booleans or arrays, so such a read yields
  \<^verbatim>\<open>undefined\<close> there.
\<close>

fun getProp :: "json \<Rightarrow> string \<Rightarrow> js_error + json option" where
  "getProp JNull k = Inl TypeError"
| "getProp (JObj kvs) k = Inr (map_of (rev kvs) k)"
| "getProp v k = Inr None"

text \<open>Truthiness, as \<^verbatim>\<open>||\<close>, \<^verbatim>\<open>&&\<close> and \<^verbatim>\<open>if\<close> test it.\<close>

fun truthy :: "json option \<Rightarrow> bool" where
  "truthy None = False"
| "truthy (Some JNull) = False"
| "truthy (Some (JBool b)) = b"
| "truthy (Some (JNum n)) = (n \<noteq> 0)"
| "truthy (Some (JStr s)) = (s \<noteq> [])"
| "truthy (Some (JArr xs)) = True"
| "truthy (Some (JObj kvs)) = True"

text \<open>\<^verbatim>\<open>x || d\<close> with a default \<open>d\<close> that is a value.\<close>

definition orElse :: "json option \<Rightarrow> json \<Rightarrow> json" where
  "orElse x d = (case x of Some v \<Rightarrow> if truthy x then v else d | None \<Rightarrow> d)"

text \<open>\<^verbatim>\<open>x || undefined\<close>.\<close>

definition orUndefined :: "json option \<Rightarrow> json option" where
  "orUndefined x = (if truthy x then x else None)"

section \<open>Strings\<close>

text \<open>
  \<^verbatim>\<open>String.prototype.toLowerCase\<close> on the code units of the model: the letters A to Z
  are mapped to a to z. No code unit outside A to Z lower-cases to one of the letters of
  the five status words, so the comparison with those words is decided by this mapping.
\<close>

definition lowerChar :: "char \<Rightarrow> char" where
  "lowerChar c =
     (let n = (of_char c :: nat) in if 65 \<le> n \<and> n \<le> 90 then char_of (n + 32) else c)"

definition toLowerCase :: "string \<Rightarrow> string" where
  "toLowerCase s = map lowerChar s"

section \<open>Domain model (types.ts)\<close>

datatype ContainerStatus = Running | Stopped | Created | Paused | Exited | Unknown

record PortMapping =
  port_hostIp :: "json option"
  port_hostPort :: "json option"
  port_containerPort :: "json option"
  port_protocol :: json

text \<open>
  The fields of \<^verbatim>\<open>Container\<close>. The field \<^verbatim>\<open>id\<close> is written \<open>container_id\<close> here
  (\<open>id\<close> is the identity function of HOL), and the other fields follow it.
\<close>

record Container =
  container_id :: json
  container_name :: json
  container_image :: json
  container_status :: ContainerStatus
  container_created :: string
  container_ports :: "PortMapping list option"
  container_labels :: "json option"

section \<open>Response normalizer: containers (cli.ts, parseRawContainer)\<close>

text \<open>
  The \<^verbatim>\<open>switch\<close> over the lower-cased status text.
\<close>

definition normalizeStatus :: "string \<Rightarrow> ContainerStatus" where
  "normalizeStatus rawStatus =
     (if rawStatus = ''running'' then Running
      else if rawStatus = ''stopped'' \<or> rawStatus = ''exited'' then Stopped
      else if rawStatus = ''created'' then Created
      else if rawStatus = ''paused'' then Paused
      else Unknown)"

text \<open>
  \<^verbatim>\<open>(raw.status as string || '').toLowerCase()\<close> followed by the switch. The argument is
  the value of \<^verbatim>\<open>raw.status\<close>. A truthy value that is not a string has no
  \<^verbatim>\<open>toLowerCase\<close> method: the call throws.
\<close>

definition statusOf :: "json option \<Rightarrow> js_error + ContainerStatus" where
  "statusOf st =
     (case orElse st (JStr []) of
        JStr s \<Rightarrow> Inr (normalizeStatus (toLowerCase s))
      | _ \<Rightarrow> Inl TypeError)"


text \<open>One element of \<^verbatim>\<open>publishedPorts.map(p => ...)\<close>.\<close>

definition parsePort :: "json \<Rightarrow> js_error + PortMapping" where
  "parsePort p =
     (case getProp p ''hostAddress'' of
        Inl e \<Rightarrow> Inl e
      | Inr ha \<Rightarrow>
          (case (getProp p ''hostPort'', getProp p ''containerPort'', getProp p ''proto'') of
             (Inr hp, Inr cp, Inr pr) \<Rightarrow>
               Inr \<lparr> port_hostIp = orUndefined ha, port_hostPort = hp, port_containerPort = cp,
                     port_protocol = orElse pr (JStr ''tcp'') \<rparr>
           | _ \<Rightarrow> Inl TypeError))"

text \<open>\<^verbatim>\<open>xs.map(f)\<close> where \<open>f\<close> may throw: the first exception aborts the map.\<close>

fun mapM :: "('a \<Rightarrow> js_error + 'b) \<Rightarrow> 'a list \<Rightarrow> js_error + 'b list" where
  "mapM f [] = Inr []"
| "mapM f (x # xs) =
     (case f x of
        Inl e \<Rightarrow> Inl e
      | Inr y \<Rightarrow> (case mapM f xs of Inl e \<Rightarrow> Inl e | Inr ys \<Rightarrow> Inr (y # ys)))"

definition parseRawContainer :: "json \<Rightarrow> js_error + Container" where
  "parseRawContainer raw =
     (case getProp raw ''configuration'' of
        Inl e \<Rightarrow> Inl e
      | Inr c \<Rightarrow>
          (let config = orElse c (JObj []) in
           case (getProp config ''image'', getProp config ''publishedPorts'') of
             (Inr im, Inr pp) \<Rightarrow>
               (let imageInfo = orElse im (JObj []);
                    publishedPorts = orElse pp (JArr [])
                in case publishedPorts of
                     JArr ps \<Rightarrow>
                       (case mapM parsePort ps of
                          Inl e \<Rightarrow> Inl e
                        | Inr ports' \<Rightarrow>
                            (case (getProp raw ''status'', getProp config ''id'',
                                   getProp imageInfo ''reference'', getProp config ''labels'') of
                               (Inr st, Inr cid, Inr ref, Inr lbl) \<Rightarrow>
                                 (case statusOf st of
                                    Inl e \<Rightarrow> Inl e
                                  | Inr status' \<Rightarrow>
                                      Inr \<lparr> container_id = orElse cid (JStr []),
                                            container_name = orElse cid (JStr []),
                                            container_image = orElse ref (JStr ''unknown''),
                                            container_status = status',
                                            container_created = [],
                                            container_ports =
                                              (if length ports' > 0 then Some ports' else None),
                                            container_labels = orUndefined lbl \<rparr>)
                             | _ \<Rightarrow> Inl TypeError))
                   | _ \<Rightarrow> Inl TypeError)
           | _ \<Rightarrow> Inl TypeError))"

section \<open>Response normalizer: images (cli.ts, parseRawImage and formatSize)\<close>

text \<open>
  \<^verbatim>\<open>s.lastIndexOf(c)\<close>: the index of the last occurrence of \<open>c\<close>, or \<open>-1\<close>.
\<close>

fun lastIndexOf :: "string \<Rightarrow> char \<Rightarrow> int" where
  "lastIndexOf [] c = - 1"
| "lastIndexOf (x # xs) c =
     (let r = lastIndexOf xs c in if 0 \<le> r then r + 1 else if x = c then 0 else - 1)"

definition startsWith :: "string \<Rightarrow> string \<Rightarrow> bool" where
  "startsWith s p = (take (length p) s = p)"

text \<open>
  The decomposition of a reference into repository and tag, as \<^verbatim>\<open>parseRawImage\<close> does it
  between reading \<^verbatim>\<open>raw.reference\<close> and building the \<^verbatim>\<open>Image\<close>:
  \<^verbatim>\<open>reference.substring(0, lastColon)\<close> is \<open>take\<close>, \<^verbatim>\<open>reference.substring(lastColon + 1)\<close>
  is \<open>drop\<close>.
\<close>

definition stripRegistry :: "string \<Rightarrow> string" where
  "stripRegistry repository =
     (if startsWith repository ''docker.io/library/''
        then drop (length ''docker.io/library/'') repository
      else if startsWith repository ''docker.io/''
        then drop (length ''docker.io/'') repository
      else repository)"

definition decomposeReference :: "string \<Rightarrow> string \<times> string" where
  "decomposeReference reference =
     (let lastColon = lastIndexOf reference CHR '':'';
          lastSlash = lastIndexOf reference CHR ''/'';
          (repository, tag) =
            (if lastColon > lastSlash
               then (take (nat lastColon) reference, drop (nat (lastColon + 1)) reference)
             else (reference, ''latest''))
      in (stripRegistry repository, tag))"

text \<open>
  Decimal text of a number, as template literals and \<^verbatim>\<open>toString\<close> produce it.
  \<open>digitChar\<close> is only applied to numbers below ten.
\<close>

definition digitChar :: "nat \<Rightarrow> char" where
  "digitChar d = ''0123456789'' ! d"

fun showNat :: "nat \<Rightarrow> string" where
  "showNat n = (if n < 10 then [digitChar n] else showNat (n div 10) @ [digitChar (n mod 10)])"

declare showNat.simps [simp del]

definition showInt :: "int \<Rightarrow> string" where
  "showInt i = (if i < 0 then CHR ''-'' # showNat (nat (- i)) else showNat (nat i))"

text \<open>
  \<^verbatim>\<open>Math.floor(Math.log(bytes) / Math.log(1024))\<close> for a positive integer, computed on
  integers (\<open>floorLog1024_floor_log\<close> below relates it to the real logarithm). The
  source computes the quotient of the logarithms in double precision. The two differ where
  the rounded quotient reaches the next integer, which happens for the three byte counts
  \<open>1024^5 - 3\<close> to \<open>1024^5 - 1\<close>: there the double quotient is 5, and the source takes
  the index 5 where this function gives 4. For the byte count evaluated below, \<open>2^51\<close>,
  the quotient is 5.1 and both give 5.
\<close>

fun floorLog1024 :: "nat \<Rightarrow> nat" where
  "floorLog1024 n = (if n < 1024 then 0 else Suc (floorLog1024 (n div 1024)))"

declare floorLog1024.simps [simp del]

text \<open>
  \<^verbatim>\<open>(bytes / Math.pow(1024, i)).toFixed(1)\<close> with \<open>d = 1024 ^ i\<close>: the quotient by a power
  of two is exact, and \<^verbatim>\<open>toFixed(1)\<close> takes the integer \<open>n\<close> with \<open>n / 10\<close> nearest to it,
  the larger one on a tie.
\<close>

definition tenths :: "nat \<Rightarrow> nat \<Rightarrow> nat" where
  "tenths bytes d = (20 * bytes + d) div (2 * d)"

definition toFixed1 :: "nat \<Rightarrow> nat \<Rightarrow> string" where
  "toFixed1 bytes d =
     (let n = tenths bytes d in showNat (n div 10) @ ''.'' @ showNat (n mod 10))"

definition units :: "string list" where
  "units = [''B'', ''KiB'', ''MiB'', ''GiB'', ''TiB'']"

text \<open>
  \<^verbatim>\<open>${units[i]}\<close>: an index past the end of the array reads \<^verbatim>\<open>undefined\<close>, which the
  template literal renders as the text \<^verbatim>\<open>undefined\<close>.
\<close>

definition unitAt :: "nat \<Rightarrow> string" where
  "unitAt i = (if i < length units then units ! i else ''undefined'')"

definition formatSize :: "nat \<Rightarrow> string" where
  "formatSize bytes =
     (if bytes = 0 then ''0 B''
      else let i = floorLog1024 bytes
           in toFixed1 bytes (1024 ^ i) @ '' '' @ unitAt i)"

section \<open>Execution gateway (cli.ts, execute)\<close>

record CliResult =
  success :: bool
  data :: "json option"
  error :: "string option"
  exitCode :: json

text \<open>
  What \<^verbatim>\<open>execFileAsync\<close> settles with: it resolves with the two output texts when the
  process exits with code 0, and rejects otherwise (non-zero exit, spawn error, timeout,
  output over the buffer limit) with an error carrying a message, possibly a code and
  possibly the captured stderr.
\<close>

datatype ProcOutcome =
    Resolved (out_stdout: string) (out_stderr: string)
  | Rejected (err_message: string) (err_code: "json option") (err_stderr: "string option")

text \<open>
  \<^verbatim>\<open>String.prototype.trim\<close> removes white space and line terminators at both ends; among
  the code units of the model these are tab, line feed, vertical tab, form feed, carriage
  return, space and no-break space.
\<close>

definition isWhiteSpace :: "char \<Rightarrow> bool" where
  "isWhiteSpace c = ((of_char c :: nat) \<in> {9, 10, 11, 12, 13, 32, 160})"

definition trim :: "string \<Rightarrow> string" where
  "trim s = rev (dropWhile isWhiteSpace (rev (dropWhile isWhiteSpace s)))"

text \<open>
  \<^verbatim>\<open>execute(args, parseJson)\<close>, as a function of what the process did. The decoder
  \<^verbatim>\<open>JSON.parse\<close> belongs to the platform: it is the parameter \<open>jsonParse\<close>, which returns
  \<open>None\<close> where \<^verbatim>\<open>JSON.parse\<close> throws. The lines written to the output channel are
  not part of the result and are left out.
\<close>

fun execute :: "(string \<Rightarrow> json option) \<Rightarrow> bool \<Rightarrow> ProcOutcome \<Rightarrow> CliResult" where
  "execute jsonParse parseJson (Resolved stdout stderr) =
     (if parseJson \<and> trim stdout \<noteq> [] then
        (case jsonParse stdout of
           Some d \<Rightarrow> \<lparr> success = True, data = Some d, error = None, exitCode = JNum 0 \<rparr>
         | None \<Rightarrow> \<lparr> success = False, data = None,
                      error = Some ''Failed to parse JSON output'', exitCode = JNum 0 \<rparr>)
      else \<lparr> success = True, data = Some (JStr stdout), error = None, exitCode = JNum 0 \<rparr>)"
| "execute jsonParse parseJson (Rejected message code stderr) =
     \<lparr> success = False, data = None,
       error = Some (case stderr of Some e \<Rightarrow> if e \<noteq> [] then e else message | None \<Rightarrow> message),
       exitCode = orElse code (JNum 1) \<rparr>"

section \<open>List operations (cli.ts)\<close>

definition listContainersArgs :: "bool \<Rightarrow> string list" where
  "listContainersArgs all = [''list'', ''--format'', ''json''] @ (if all then [''--all''] else [])"

definition listImagesArgs :: "string list" where
  "listImagesArgs = [''image'', ''list'', ''--format'', ''json'']"

definition listVolumesArgs :: "string list" where
  "listVolumesArgs = [''volume'', ''list'', ''--format'', ''json'']"

definition listNetworksArgs :: "string list" where
  "listNetworksArgs = [''network'', ''list'', ''--format'', ''json'']"

text \<open>
  The common body of the four list operations, from the result of \<^verbatim>\<open>execute\<close> on:
  \<^verbatim>\<open>if (result.success && result.data) { rawData = Array.isArray(result.data) ? result.data : []; return rawData.map(parse) } return []\<close>.
  An exception in \<open>parse\<close> rejects the promise of the list operation.
\<close>

definition listFrom :: "(json \<Rightarrow> js_error + 'a) \<Rightarrow> CliResult \<Rightarrow> js_error + 'a list" where
  "listFrom parse result =
     (if success result \<and> truthy (data result) then
        (case data result of
           Some (JArr rawData) \<Rightarrow> mapM parse rawData
         | _ \<Rightarrow> Inr [])
      else Inr [])"

definition listContainers ::
    "(string \<Rightarrow> json option) \<Rightarrow> ProcOutcome \<Rightarrow> js_error + Container list" where
  "listContainers jsonParse outcome = listFrom parseRawContainer (execute jsonParse True outcome)"

text \<open>
  \<^verbatim>\<open>listImages\<close> maps \<^verbatim>\<open>parseRawImage\<close> over the records. What the refresh logic needs
  of it is only that it is applied record by record, so the record parser is a parameter
  here; its reference decomposition and size formatting are \<open>decomposeReference\<close> and
  \<open>formatSize\<close> above.
\<close>

definition listImages ::
    "(json \<Rightarrow> js_error + 'i) \<Rightarrow> (string \<Rightarrow> json option) \<Rightarrow> ProcOutcome \<Rightarrow> js_error + 'i list" where
  "listImages parseRawImage jsonParse outcome =
     listFrom parseRawImage (execute jsonParse True outcome)"

text \<open>Volumes and networks are returned as decoded, without a record parser.\<close>

definition listVolumes :: "(string \<Rightarrow> json option) \<Rightarrow> ProcOutcome \<Rightarrow> js_error + json list" where
  "listVolumes jsonParse outcome = listFrom Inr (execute jsonParse True outcome)"

definition listNetworks :: "(string \<Rightarrow> json option) \<Rightarrow> ProcOutcome \<Rightarrow> js_error + json list" where
  "listNetworks jsonParse outcome = listFrom Inr (execute jsonParse True outcome)"

section \<open>Configuration (cli.ts, loadConfig)\<close>

record ExtensionConfig =
  containerPath :: string
  refreshInterval :: int
  showStoppedContainers :: bool
  defaultShell :: string
  confirmBeforeDelete :: bool

text \<open>
  The settings store of the host for the section \<^verbatim>\<open>appleContainers\<close>: a setting is
  present or not, and \<^verbatim>\<open>config.get(key, default)\<close> returns the default for a missing one.
\<close>

record Settings =
  set_containerPath :: "string option"
  set_refreshInterval :: "int option"
  set_showStoppedContainers :: "bool option"
  set_defaultShell :: "string option"
  set_confirmBeforeDelete :: "bool option"

definition loadConfig :: "Settings \<Rightarrow> ExtensionConfig" where
  "loadConfig st =
     \<lparr> containerPath = (case set_containerPath st of Some v \<Rightarrow> v | None \<Rightarrow> ''container''),
       refreshInterval = (case set_refreshInterval st of Some v \<Rightarrow> v | None \<Rightarrow> 5000),
       showStoppedContainers = (case set_showStoppedContainers st of Some v \<Rightarrow> v | None \<Rightarrow> True),
       defaultShell = (case set_defaultShell st of Some v \<Rightarrow> v | None \<Rightarrow> ''/bin/sh''),
       confirmBeforeDelete = (case set_confirmBeforeDelete st of Some v \<Rightarrow> v | None \<Rightarrow> True) \<rparr>"

section \<open>Resource cache and refresh scheduling (the four tree data providers)\<close>

text \<open>
  The state of a provider. \<open>items\<close> is the cached list (\<^verbatim>\<open>_containers\<close>, \<^verbatim>\<open>_images\<close>,
  \<^verbatim>\<open>_volumes\<close>, \<^verbatim>\<open>_networks\<close>); \<open>refreshTimer\<close> is \<open>None\<close> for \<^verbatim>\<open>undefined\<close> and
  otherwise holds the delay that was given to \<^verbatim>\<open>setInterval\<close>. Three fields record
  what the provider does to its surroundings: \<open>fired\<close> counts the calls of
  \<^verbatim>\<open>_onDidChangeTreeData.fire()\<close>, \<open>launched\<close> lists the argument vectors of the CLI
  processes the provider has started, oldest first, and \<open>pending\<close> counts the calls of
  \<^verbatim>\<open>refresh\<close> that are suspended at their \<^verbatim>\<open>await\<close>, each with its process running.
\<close>

record 'a Provider =
  items :: "'a list"
  refreshTimer :: "int option"
  fired :: nat
  launched :: "string list list"
  pending :: nat

record ContainersProvider = "Container Provider" +
  initialLoadDone :: bool

definition startAutoRefresh ::
    "ExtensionConfig \<Rightarrow> ('a, 'z) Provider_scheme \<Rightarrow> ('a, 'z) Provider_scheme" where
  "startAutoRefresh cfg p =
     (let interval = refreshInterval cfg
      in if interval > 0 then p\<lparr>refreshTimer := Some interval\<rparr> else p)"

definition stopAutoRefresh :: "('a, 'z) Provider_scheme \<Rightarrow> ('a, 'z) Provider_scheme" where
  "stopAutoRefresh p = (if refreshTimer p \<noteq> None then p\<lparr>refreshTimer := None\<rparr> else p)"

text \<open>The constructors: the fields' initial values, then \<^verbatim>\<open>this.startAutoRefresh()\<close>.\<close>

definition newProvider :: "ExtensionConfig \<Rightarrow> 'a Provider" where
  "newProvider cfg =
     startAutoRefresh cfg
       \<lparr> items = [], refreshTimer = None, fired = 0, launched = [], pending = 0 \<rparr>"

definition newContainersProvider :: "ExtensionConfig \<Rightarrow> ContainersProvider" where
  "newContainersProvider cfg =
     startAutoRefresh cfg
       \<lparr> items = [], refreshTimer = None, fired = 0, launched = [], pending = 0,
         initialLoadDone = False \<rparr>"

text \<open>
  \<^verbatim>\<open>refresh\<close> is asynchronous. A call runs up to the \<^verbatim>\<open>await\<close> at once: the list
  operation builds its arguments and \<^verbatim>\<open>execute\<close> starts the process. The rest runs when
  the process has settled: the list is assigned and the change event is fired; when the list
  operation rejects, neither happens. \<open>refreshStart\<close> is the first part for a given
  argument vector, \<open>refreshFinish\<close> the second for the outcome of the list operation.
\<close>

definition refreshStart ::
    "string list \<Rightarrow> ('a, 'z) Provider_scheme \<Rightarrow> ('a, 'z) Provider_scheme" where
  "refreshStart args p = p\<lparr>launched := launched p @ [args], pending := pending p + 1\<rparr>"

definition refreshFinish ::
    "js_error + 'a list \<Rightarrow> ('a, 'z) Provider_scheme \<Rightarrow> ('a, 'z) Provider_scheme" where
  "refreshFinish listed p =
     (case listed of
        Inl e \<Rightarrow> p\<lparr>pending := pending p - 1\<rparr>
      | Inr xs \<Rightarrow> p\<lparr>items := xs, fired := fired p + 1, pending := pending p - 1\<rparr>)"

subsection \<open>ContainersProvider\<close>

definition ContainersProvider_refreshStart ::
    "ExtensionConfig \<Rightarrow> ContainersProvider \<Rightarrow> ContainersProvider" where
  "ContainersProvider_refreshStart cfg p =
     (let showAll = showStoppedContainers cfg in refreshStart (listContainersArgs showAll) p)"

definition ContainersProvider_refreshFinish ::
    "(string \<Rightarrow> json option) \<Rightarrow> ProcOutcome \<Rightarrow> ContainersProvider \<Rightarrow> ContainersProvider" where
  "ContainersProvider_refreshFinish jsonParse outcome p =
     (case listContainers jsonParse outcome of
        Inl e \<Rightarrow> p\<lparr>pending := pending p - 1\<rparr>
      | Inr cs \<Rightarrow>
          p\<lparr>items := cs, initialLoadDone := True, fired := fired p + 1,
            pending := pending p - 1\<rparr>)"

text \<open>The timer callback: \<^verbatim>\<open>() => { this.refresh(); }\<close>.\<close>

definition ContainersProvider_tick ::
    "ExtensionConfig \<Rightarrow> ContainersProvider \<Rightarrow> ContainersProvider" where
  "ContainersProvider_tick cfg p = ContainersProvider_refreshStart cfg p"

text \<open>
  \<^verbatim>\<open>getChildren()\<close> for the root: it either returns the children at once or is suspended
  at the \<^verbatim>\<open>await\<close> of the refresh it has started.
\<close>

datatype 'a children = Returned "'a list" | Awaiting

definition ContainersProvider_getChildren ::
    "ExtensionConfig \<Rightarrow> ContainersProvider \<Rightarrow> Container children \<times> ContainersProvider" where
  "ContainersProvider_getChildren cfg p =
     (if \<not> initialLoadDone p then (Awaiting, ContainersProvider_refreshStart cfg p)
      else (Returned (items p), p))"

subsection \<open>ImagesProvider, VolumesProvider, NetworksProvider\<close>

definition ImagesProvider_refreshStart :: "'i Provider \<Rightarrow> 'i Provider" where
  "ImagesProvider_refreshStart p = refreshStart listImagesArgs p"

definition ImagesProvider_refreshFinish ::
    "(json \<Rightarrow> js_error + 'i) \<Rightarrow> (string \<Rightarrow> json option) \<Rightarrow> ProcOutcome
      \<Rightarrow> 'i Provider \<Rightarrow> 'i Provider" where
  "ImagesProvider_refreshFinish parseRawImage jsonParse outcome p =
     refreshFinish (listImages parseRawImage jsonParse outcome) p"

definition ImagesProvider_tick :: "'i Provider \<Rightarrow> 'i Provider" where
  "ImagesProvider_tick p = ImagesProvider_refreshStart p"

definition VolumesProvider_refreshStart :: "json Provider \<Rightarrow> json Provider" where
  "VolumesProvider_refreshStart p = refreshStart listVolumesArgs p"

definition VolumesProvider_refreshFinish ::
    "(string \<Rightarrow> json option) \<Rightarrow> ProcOutcome \<Rightarrow> json Provider \<Rightarrow> json Provider" where
  "VolumesProvider_refreshFinish jsonParse outcome p =
     refreshFinish (listVolumes jsonParse outcome) p"

definition VolumesProvider_tick :: "json Provider \<Rightarrow> json Provider" where
  "VolumesProvider_tick p = VolumesProvider_refreshStart p"

definition NetworksProvider_refreshStart :: "json Provider \<Rightarrow> json Provider" where
  "NetworksProvider_refreshStart p = refreshStart listNetworksArgs p"

definition NetworksProvider_refreshFinish ::
    "(string \<Rightarrow> json option) \<Rightarrow> ProcOutcome \<Rightarrow> json Provider \<Rightarrow> json Provider" where
  "NetworksProvider_refreshFinish jsonParse outcome p =
     refreshFinish (listNetworks jsonParse outcome) p"

definition NetworksProvider_tick :: "json Provider \<Rightarrow> json Provider" where
  "NetworksProvider_tick p = NetworksProvider_refreshStart p"

text \<open>
  \<^verbatim>\<open>getChildren()\<close> of the three other providers tests the length of the cached list.
  When it does not refresh it sorts the cached array in place (\<^verbatim>\<open>Array.prototype.sort\<close>
  with a comparator built on \<^verbatim>\<open>localeCompare\<close>, the parameter \<open>sortItems\<close>) and returns it.
\<close>

definition ImagesProvider_getChildren ::
    "('i list \<Rightarrow> 'i list) \<Rightarrow> 'i Provider \<Rightarrow> 'i children \<times> 'i Provider" where
  "ImagesProvider_getChildren sortItems p =
     (if length (items p) = 0 then (Awaiting, ImagesProvider_refreshStart p)
      else (Returned (sortItems (items p)), p\<lparr>items := sortItems (items p)\<rparr>))"

definition VolumesProvider_getChildren ::
    "(json list \<Rightarrow> json list) \<Rightarrow> json Provider \<Rightarrow> json children \<times> json Provider" where
  "VolumesProvider_getChildren sortItems p =
     (if length (items p) = 0 then (Awaiting, VolumesProvider_refreshStart p)
      else (Returned (sortItems (items p)), p\<lparr>items := sortItems (items p)\<rparr>))"

definition NetworksProvider_getChildren ::
    "(json list \<Rightarrow> json list) \<Rightarrow> json Provider \<Rightarrow> json children \<times> json Provider" where
  "NetworksProvider_getChildren sortItems p =
     (if length (items p) = 0 then (Awaiting, NetworksProvider_refreshStart p)
      else (Returned (sortItems (items p)), p\<lparr>items := sortItems (items p)\<rparr>))"

section \<open>Activation and configuration changes (extension.ts, cli.ts)\<close>

text \<open>
  The objects \<^verbatim>\<open>activate\<close> creates: the CLI wrapper, whose constructor loads the
  configuration, and the four providers, whose constructors read the wrapper's
  configuration.
\<close>

record 'i Extension =
  cli_config :: ExtensionConfig
  containersProvider :: ContainersProvider
  imagesProvider :: "'i Provider"
  volumesProvider :: "json Provider"
  networksProvider :: "json Provider"

definition activate :: "Settings \<Rightarrow> 'i Extension" where
  "activate st =
     (let cfg = loadConfig st
      in \<lparr> cli_config = cfg,
           containersProvider = newContainersProvider cfg,
           imagesProvider = newProvider cfg,
           volumesProvider = newProvider cfg,
           networksProvider = newProvider cfg \<rparr>)"

text \<open>
  The only listener for configuration changes is the one the CLI wrapper's constructor
  registers; \<open>affects\<close> is \<^verbatim>\<open>e.affectsConfiguration('appleContainers')\<close> and \<open>st\<close>
  the settings after the change.
\<close>

definition onDidChangeConfiguration :: "bool \<Rightarrow> Settings \<Rightarrow> 'i Extension \<Rightarrow> 'i Extension" where
  "onDidChangeConfiguration affects st ext =
     (if affects then ext\<lparr>cli_config := loadConfig st\<rparr> else ext)"

section \<open>Argument builder (cli.ts, runContainer)\<close>

text \<open>
  The options of a run request. An optional field is \<open>None\<close> when absent. A record of
  strings (\<^verbatim>\<open>env\<close>, \<^verbatim>\<open>labels\<close>) is the list of its entries in the order
  \<^verbatim>\<open>Object.entries\<close> enumerates them. Port and CPU numbers are integers. The field
  \<^verbatim>\<open>image\<close> is written \<open>run_image\<close> (\<open>image\<close> is the image of a set in HOL), and the
  fields of a mount carry the prefix \<open>mount\<close> to tell them from those of a volume.
\<close>

datatype Protocol = Tcp | Udp

fun protocolText :: "Protocol \<Rightarrow> string" where
  "protocolText Tcp = ''tcp''"
| "protocolText Udp = ''udp''"

datatype MountType = Bind | Volume | Tmpfs

fun mountTypeText :: "MountType \<Rightarrow> string" where
  "mountTypeText Bind = ''bind''"
| "mountTypeText Volume = ''volume''"
| "mountTypeText Tmpfs = ''tmpfs''"

record PortOption =
  host :: int
  container :: int
  hostIp :: "string option"
  protocol :: "Protocol option"

record VolumeOption =
  source :: string
  target :: string
  readonly :: "bool option"

record MountOption =
  mount_type :: MountType
  mount_source :: string
  mount_target :: string
  mount_readonly :: "bool option"

record RunContainerOptions =
  run_image :: string
  name :: "string option"
  detach :: "bool option"
  interactive :: "bool option"
  tty :: "bool option"
  remove :: "bool option"
  env :: "(string \<times> string) list option"
  envFile :: "string option"
  ports :: "PortOption list option"
  volumes :: "VolumeOption list option"
  mounts :: "MountOption list option"
  network :: "string option"
  workdir :: "string option"
  user :: "string option"
  cpus :: "int option"
  memory :: "string option"
  entrypoint :: "string option"
  cmd :: "string list option"
  platform :: "string option"
  labels :: "(string \<times> string) list option"
  dns :: "string list option"
  dnsSearch :: "string list option"
  rosetta :: "bool option"
  ssh :: "bool option"

text \<open>
  \<^verbatim>\<open>if (options.x) { args.push(flag, options.x); }\<close> for a string: an absent and an
  empty string are both falsy.
\<close>

definition pushString :: "string \<Rightarrow> string option \<Rightarrow> string list" where
  "pushString flag v = (case v of Some s \<Rightarrow> if s \<noteq> [] then [flag, s] else [] | None \<Rightarrow> [])"

text \<open>\<^verbatim>\<open>if (options.x) { args.push(flag); }\<close> for a boolean.\<close>

definition pushFlag :: "string \<Rightarrow> bool option \<Rightarrow> string list" where
  "pushFlag flag v = (if v = Some True then [flag] else [])"

text \<open>
  \<^verbatim>\<open>if (options.xs) { for (const x of options.xs) { args.push(flag, spec(x)); } }\<close>:
  an array or a record, when present, is truthy even if empty.
\<close>

definition pushEach :: "string \<Rightarrow> ('a \<Rightarrow> string) \<Rightarrow> 'a list option \<Rightarrow> string list" where
  "pushEach flag spec v =
     (case v of Some xs \<Rightarrow> concat (map (\<lambda>x. [flag, spec x]) xs) | None \<Rightarrow> [])"

definition keyValue :: "string \<times> string \<Rightarrow> string" where
  "keyValue kv = fst kv @ ''='' @ snd kv"

definition portSpec :: "PortOption \<Rightarrow> string" where
  "portSpec port =
     (case hostIp port of Some ip \<Rightarrow> if ip \<noteq> [] then ip @ '':'' else [] | None \<Rightarrow> [])
     @ showInt (host port) @ '':'' @ showInt (container port)
     @ (case protocol port of
          Some pr \<Rightarrow> if pr \<noteq> Tcp then ''/'' @ protocolText pr else []
        | None \<Rightarrow> [])"

definition volSpec :: "VolumeOption \<Rightarrow> string" where
  "volSpec vol =
     source vol @ '':'' @ target vol @ (if readonly vol = Some True then '':ro'' else [])"

definition mountSpec :: "MountOption \<Rightarrow> string" where
  "mountSpec mount =
     ''type='' @ mountTypeText (mount_type mount) @ '',source='' @ mount_source mount
     @ '',target='' @ mount_target mount
     @ (if mount_readonly mount = Some True then '',readonly'' else [])"

text \<open>The argument vector \<^verbatim>\<open>runContainer\<close> hands to \<^verbatim>\<open>execute\<close>, in the order of its pushes.\<close>

definition runContainerArgs :: "RunContainerOptions \<Rightarrow> string list" where
  "runContainerArgs options =
     [''run'']
     @ pushString ''--name'' (name options)
     @ pushFlag ''--detach'' (detach options)
     @ pushFlag ''--rm'' (remove options)
     @ pushFlag ''--interactive'' (interactive options)
     @ pushFlag ''--tty'' (tty options)
     @ pushEach ''--env'' keyValue (env options)
     @ pushString ''--env-file'' (envFile options)
     @ pushEach ''--publish'' portSpec (ports options)
     @ pushEach ''--volume'' volSpec (volumes options)
     @ pushEach ''--mount'' mountSpec (mounts options)
     @ pushString ''--network'' (network options)
     @ pushString ''--workdir'' (workdir options)
     @ pushString ''--user'' (user options)
     @ (case cpus options of
          Some n \<Rightarrow> if n \<noteq> 0 then [''--cpus'', showInt n] else []
        | None \<Rightarrow> [])
     @ pushString ''--memory'' (memory options)
     @ pushString ''--platform'' (platform options)
     @ pushString ''--entrypoint'' (entrypoint options)
     @ pushEach ''--label'' keyValue (labels options)
     @ pushEach ''--dns'' (\<lambda>d. d) (dns options)
     @ pushEach ''--dns-search'' (\<lambda>d. d) (dnsSearch options)
     @ pushFlag ''--rosetta'' (rosetta options)
     @ pushFlag ''--ssh'' (ssh options)
     @ [run_image options]
     @ (case cmd options of Some c \<Rightarrow> c | None \<Rightarrow> [])"

text \<open>The request that has the image and no optional field.\<close>

definition minimalRun :: "string \<Rightarrow> RunContainerOptions" where
  "minimalRun img =
     \<lparr> run_image = img, name = None, detach = None, interactive = None, tty = None,
       remove = None, env = None, envFile = None, ports = None, volumes = None,
       mounts = None, network = None, workdir = None, user = None, cpus = None,
       memory = None, entrypoint = None, cmd = None, platform = None, labels = None,
       dns = None, dnsSearch = None, rosetta = None, ssh = None \<rparr>"

text \<open>
  The number of tokens a field of a run request stands for in the argument vector: none for
  an absent field, two (flag and value) for a string or a number that is present and truthy,
  one for a flag that is set, two for each entry of a list or record, and the words of the
  command themselves.
\<close>

definition stringTokens :: "string option \<Rightarrow> nat" where
  "stringTokens v = (case v of Some s \<Rightarrow> if s = [] then 0 else 2 | None \<Rightarrow> 0)"

definition flagTokens :: "bool option \<Rightarrow> nat" where
  "flagTokens v = (case v of Some b \<Rightarrow> if b then 1 else 0 | None \<Rightarrow> 0)"

definition listTokens :: "'a list option \<Rightarrow> nat" where
  "listTokens v = (case v of Some xs \<Rightarrow> 2 * length xs | None \<Rightarrow> 0)"

definition numberTokens :: "int option \<Rightarrow> nat" where
  "numberTokens v = (case v of Some n \<Rightarrow> if n = 0 then 0 else 2 | None \<Rightarrow> 0)"

definition wordTokens :: "string list option \<Rightarrow> nat" where
  "wordTokens v = (case v of Some ws \<Rightarrow> length ws | None \<Rightarrow> 0)"

section \<open>Example inputs\<close>

text \<open>The settings store with no setting present: every configuration value is its default.\<close>

definition defaultSettings :: Settings where
  "defaultSettings =
     \<lparr> set_containerPath = None, set_refreshInterval = None, set_showStoppedContainers = None,
       set_defaultShell = None, set_confirmBeforeDelete = None \<rparr>"

text \<open>A populated containers provider and a CLI invocation that fails.\<close>

definition webContainer :: Container where
  "webContainer =
     \<lparr> container_id = JStr ''web'', container_name = JStr ''web'',
       container_image = JStr ''nginx:latest'', container_status = Running,
       container_created = [], container_ports = None, container_labels = None \<rparr>"

definition populated :: ContainersProvider where
  "populated =
     \<lparr> items = [webContainer], refreshTimer = Some 5000, fired = 1,
       launched = [[''list'', ''--format'', ''json'', ''--all'']], pending = 0,
       initialLoadDone = True \<rparr>"

definition daemonDown :: ProcOutcome where
  "daemonDown =
     Rejected ''Command failed: container list --format json --all'' (Some (JNum 1))
       (Some ''Error: container daemon is not running'')"

text \<open>A list record as the CLI prints it for a running container.\<close>

definition webRecord :: json where
  "webRecord =
     JObj [(''status'', JStr ''Running''),
           (''configuration'', JObj [(''id'', JStr ''web'')])]"

text \<open>
  The decoder tabulated at the one text the example below decodes: the empty JSON array.
\<close>

definition emptyArrayDecoder :: "string \<Rightarrow> json option" where
  "emptyArrayDecoder = Map.empty(''[]'' \<mapsto> JArr [])"

text \<open>The port and the volume of the run request of the specification.\<close>

definition webPort :: PortOption where
  "webPort = \<lparr> host = 8080, container = 80, hostIp = None, protocol = None \<rparr>"

definition dataVolume :: VolumeOption where
  "dataVolume = \<lparr> source = ''/data'', target = ''/app'', readonly = Some True \<rparr>"

section \<open>Auxiliary facts\<close>

subsection \<open>Configuration, refreshes and white space\<close>

lemma loadConfig_default:
  "loadConfig defaultSettings =
     \<lparr> containerPath = ''container'', refreshInterval = 5000, showStoppedContainers = True,
       defaultShell = ''/bin/sh'', confirmBeforeDelete = True \<rparr>"
  by (simp add: loadConfig_def defaultSettings_def)

lemma refreshStart_funpow:
  "pending ((refreshStart args ^^ n) p) = pending p + n
   \<and> launched ((refreshStart args ^^ n) p) = launched p @ replicate n args"
  by (induction n) (simp_all add: refreshStart_def replicate_append_same)

lemma listFrom_failed: "\<not> success r \<Longrightarrow> listFrom parse r = Inr []"
  by (simp add: listFrom_def)

lemma dropWhile_all: "(\<forall>x \<in> set (dropWhile P s). P x) \<longleftrightarrow> (\<forall>x \<in> set s. P x)"
  by (induction s) auto

lemma trim_Nil_iff: "trim s = [] \<longleftrightarrow> (\<forall>c \<in> set s. isWhiteSpace c)"
  by (simp add: trim_def dropWhile_eq_Nil_conv dropWhile_all)

subsection \<open>Container records\<close>

lemma statusOf_absent: "statusOf None = Inr Unknown"
  by (simp add: statusOf_def orElse_def normalizeStatus_def toLowerCase_def)

lemma statusOf_string: "statusOf (Some (JStr s)) = Inr (normalizeStatus (toLowerCase s))"
  by (cases "s = []") (simp_all add: statusOf_def orElse_def toLowerCase_def)


lemma webRecord_parsed:
  "parseRawContainer webRecord =
     Inr \<lparr> container_id = JStr ''web'', container_name = JStr ''web'',
           container_image = JStr ''unknown'', container_status = Running,
           container_created = [], container_ports = None, container_labels = None \<rparr>"
  by code_simp

lemma emptyRecord_parsed:
  "parseRawContainer (JObj []) =
     Inr \<lparr> container_id = JStr [], container_name = JStr [],
           container_image = JStr ''unknown'', container_status = Unknown,
           container_created = [], container_ports = None, container_labels = None \<rparr>"
  by code_simp





text \<open>
  A status that is \<^verbatim>\<open>null\<close> is falsy and treated as absent. A truthy status that is not
  a string makes the normalization throw; the casts of the source rule such a record out.
\<close>

lemma statusOf_null: "statusOf (Some JNull) = Inr Unknown"
  by (simp add: statusOf_def orElse_def normalizeStatus_def toLowerCase_def)

lemma statusOf_non_string:
  "statusOf (Some (JNum 3)) = Inl TypeError" "statusOf (Some (JBool True)) = Inl TypeError"
  "statusOf (Some (JObj kvs)) = Inl TypeError" "statusOf (Some (JArr xs)) = Inl TypeError"
  by (simp_all add: statusOf_def orElse_def)

text \<open>
  When a container is produced: the record is not \<^verbatim>\<open>null\<close>, its status is absent,
  \<^verbatim>\<open>null\<close> or a string, and its published ports are absent or an array without
  \<^verbatim>\<open>null\<close> entries.
\<close>

lemma parsePort_defined: "p \<noteq> JNull \<Longrightarrow> \<exists>m. parsePort p = Inr m"
  by (cases p) (simp_all add: parsePort_def)

lemma mapM_parsePort_defined: "JNull \<notin> set ps \<Longrightarrow> \<exists>ms. mapM parsePort ps = Inr ms"
proof (induction ps)
  case Nil
  show ?case by simp
next
  case (Cons p ps)
  then obtain m ms where "parsePort p = Inr m" "mapM parsePort ps = Inr ms"
    using parsePort_defined [of p] by auto
  then show ?case by simp
qed

lemma orElse_not_null: "d \<noteq> JNull \<Longrightarrow> orElse x d \<noteq> JNull"
  by (cases x) (auto simp: orElse_def)

lemma getProp_defined: "v \<noteq> JNull \<Longrightarrow> \<exists>r. getProp v k = Inr r"
  by (cases v) simp_all

lemma parseRawContainer_defined:
  assumes cfg: "getProp raw ''configuration'' = Inr cfg"
    and st: "getProp raw ''status'' = Inr st"
      "st = None \<or> st = Some JNull \<or> (\<exists>s. st = Some (JStr s))"
    and pp: "getProp (orElse cfg (JObj [])) ''publishedPorts'' = Inr pp"
      "orElse pp (JArr []) = JArr ps" "JNull \<notin> set ps"
  shows "\<exists>c. parseRawContainer raw = Inr c"
proof -
  let ?config = "orElse cfg (JObj [])"
  have cn: "?config \<noteq> JNull"
    by (rule orElse_not_null) simp
  obtain im where im: "getProp ?config ''image'' = Inr im"
    using getProp_defined [OF cn] by blast
  obtain cid where cid: "getProp ?config ''id'' = Inr cid"
    using getProp_defined [OF cn] by blast
  obtain lbl where lbl: "getProp ?config ''labels'' = Inr lbl"
    using getProp_defined [OF cn] by blast
  have "orElse im (JObj []) \<noteq> JNull"
    by (rule orElse_not_null) simp
  then obtain ref where ref: "getProp (orElse im (JObj [])) ''reference'' = Inr ref"
    using getProp_defined by blast
  obtain ms where ms: "mapM parsePort ps = Inr ms"
    using mapM_parsePort_defined [OF pp(3)] by blast
  obtain s where s: "statusOf st = Inr s"
    using st(2) statusOf_absent statusOf_null statusOf_string by blast
  show ?thesis
    by (simp add: parseRawContainer_def cfg im pp(1) pp(2) ms st(1) cid ref lbl s Let_def)
qed

subsection \<open>The last index of a character and the decomposition of references\<close>

lemma lastIndexOf_range: "- 1 \<le> lastIndexOf s c \<and> lastIndexOf s c < int (length s)"
  by (induction s) (auto simp: Let_def)

lemma lastIndexOf_absent: "c \<notin> set s \<Longrightarrow> lastIndexOf s c = - 1"
  by (induction s) (auto simp: Let_def)

lemma lastIndexOf_last: "c \<notin> set t \<Longrightarrow> lastIndexOf (r @ c # t) c = int (length r)"
  by (induction r) (auto simp: Let_def lastIndexOf_absent)

lemma lastIndexOf_before:
  "c \<notin> set t \<Longrightarrow> lastIndexOf (r @ t) c = lastIndexOf r c"
  by (induction r) (auto simp: Let_def lastIndexOf_absent)

lemma lastIndexOf_at_least: "int (length r) \<le> lastIndexOf (r @ c # t) c"
proof (induction r)
  case Nil
  show ?case using lastIndexOf_range [of t c] by (simp add: Let_def)
next
  case (Cons x r)
  then show ?case by (simp add: Let_def)
qed

lemma decompose_tagged:
  assumes "CHR '':'' \<notin> set t" "CHR ''/'' \<notin> set t"
  shows "decomposeReference (r @ CHR '':'' # t) = (stripRegistry r, t)"
proof -
  have c: "lastIndexOf (r @ CHR '':'' # t) CHR '':'' = int (length r)"
    using assms(1) by (rule lastIndexOf_last)
  have "lastIndexOf (r @ CHR '':'' # t) CHR ''/'' = lastIndexOf r CHR ''/''"
    using assms(2) lastIndexOf_before [of "CHR ''/''" "CHR '':'' # t" r] by simp
  then have s: "lastIndexOf (r @ CHR '':'' # t) CHR ''/'' < int (length r)"
    using lastIndexOf_range [of r "CHR ''/''"] by simp
  have n: "nat (int (length r) + 1) = Suc (length r)"
    by simp
  show ?thesis
    using s by (simp add: decomposeReference_def c n Let_def)
qed

lemma decompose_untagged_no_colon:
  assumes "CHR '':'' \<notin> set ref"
  shows "decomposeReference ref = (stripRegistry ref, ''latest'')"
  using assms lastIndexOf_range [of ref "CHR ''/''"]
  by (simp add: decomposeReference_def lastIndexOf_absent Let_def)

lemma decompose_untagged_slash:
  assumes "CHR '':'' \<notin> set t"
  shows "decomposeReference (r @ CHR ''/'' # t) = (stripRegistry (r @ CHR ''/'' # t), ''latest'')"
proof -
  have s: "int (length r) \<le> lastIndexOf (r @ CHR ''/'' # t) CHR ''/''"
    by (rule lastIndexOf_at_least)
  have "lastIndexOf (r @ CHR ''/'' # t) CHR '':'' = lastIndexOf r CHR '':''"
    using assms lastIndexOf_before [of "CHR '':''" "CHR ''/'' # t" r] by simp
  then have c: "lastIndexOf (r @ CHR ''/'' # t) CHR '':'' < int (length r)"
    using lastIndexOf_range [of r "CHR '':''"] by simp
  show ?thesis
    using s c by (simp add: decomposeReference_def Let_def)
qed

lemma stripRegistry_library: "stripRegistry (''docker.io/library/'' @ x) = x"
  by (simp add: stripRegistry_def startsWith_def)

lemma stripRegistry_docker:
  assumes "\<not> startsWith x ''library/''"
  shows "stripRegistry (''docker.io/'' @ x) = x"
  using assms by (simp add: stripRegistry_def startsWith_def)

lemma startsWith_iff: "startsWith s p \<longleftrightarrow> (\<exists>x. s = p @ x)"
  by (metis append_eq_conv_conj append_take_drop_id startsWith_def)

lemma stripRegistry_other:
  assumes "\<not> startsWith r ''docker.io/''"
  shows "stripRegistry r = r"
proof -
  have "\<not> startsWith r ''docker.io/library/''"
  proof
    assume "startsWith r ''docker.io/library/''"
    then obtain x where "r = ''docker.io/library/'' @ x"
      unfolding startsWith_iff by blast
    then have "r = ''docker.io/'' @ (''library/'' @ x)"
      by simp
    then have "startsWith r ''docker.io/''"
      unfolding startsWith_iff by blast
    with assms show False by simp
  qed
  then show ?thesis using assms by (simp add: stripRegistry_def)
qed

subsection \<open>The logarithm and the rounding of sizes\<close>

lemma floorLog1024_bounds:
  "0 < n \<Longrightarrow> 1024 ^ floorLog1024 n \<le> n \<and> n < 1024 ^ (floorLog1024 n + 1)"
proof (induction n rule: floorLog1024.induct)
  case (1 n)
  show ?case
  proof (cases "n < 1024")
    case True
    with 1 show ?thesis by (simp add: floorLog1024.simps [of n])
  next
    case False
    then have pos: "0 < n div 1024" by simp
    from 1(1) [OF False pos]
    have ih: "1024 ^ floorLog1024 (n div 1024) \<le> n div 1024"
      "n div 1024 < 1024 ^ (floorLog1024 (n div 1024) + 1)" by simp_all
    have f: "floorLog1024 n = Suc (floorLog1024 (n div 1024))"
      using False by (simp add: floorLog1024.simps [of n])
    have "1024 * 1024 ^ floorLog1024 (n div 1024) \<le> 1024 * (n div 1024)"
      using ih(1) by simp
    also have "\<dots> \<le> n"
      by simp
    finally have a: "1024 * 1024 ^ floorLog1024 (n div 1024) \<le> n" .
    have "n < 1024 ^ (floorLog1024 (n div 1024) + 1) * 1024"
      using ih(2) by (simp only: div_less_iff_less_mult [of 1024, symmetric] zero_less_numeral)
    then have b: "n < 1024 * 1024 ^ (floorLog1024 (n div 1024) + 1)"
      by (simp only: mult.commute)
    show ?thesis using a b by (simp add: f)
  qed
qed

lemma floorLog1024_floor_log:
  assumes "0 < n"
  shows "int (floorLog1024 n) = \<lfloor>ln (real n) / ln 1024\<rfloor>"
proof -
  have "\<lfloor>log (real (1024::nat)) (real n)\<rfloor> = int (floorLog1024 n)"
    using floorLog1024_bounds [OF assms] by (intro floor_log_nat_eq_if) simp_all
  then show ?thesis by (simp add: log_def)
qed

lemma tenths_rounds:
  assumes "0 < d"
  shows "2 * (tenths b d * d) \<le> 20 * b + d \<and> 20 * b < 2 * (tenths b d * d) + d"
proof -
  define q where "q = (20 * b + d) div (2 * d)"
  define m where "m = (20 * b + d) mod (2 * d)"
  have m: "m < 2 * d"
    using assms by (simp add: m_def)
  have "2 * d * q + m = 20 * b + d"
    by (simp add: q_def m_def)
  then have e: "2 * (q * d) + m = 20 * b + d"
    by (simp add: ac_simps)
  show ?thesis
    using m e unfolding tenths_def q_def [symmetric] by linarith
qed

lemma formatSize_in_range:
  assumes "0 < b" "b + 3 < 1024 ^ 5"
  shows "\<exists>i < 5. formatSize b = toFixed1 b (1024 ^ i) @ '' '' @ units ! i
           \<and> 1024 ^ i \<le> b \<and> b < 1024 ^ (i + 1)"
proof -
  let ?i = "floorLog1024 b"
  have below: "b < 1024 ^ 5"
    using assms(2) by simp
  have bd: "1024 ^ ?i \<le> b" "b < 1024 ^ (?i + 1)"
    using floorLog1024_bounds [OF assms(1)] by simp_all
  have "(1024::nat) ^ ?i < 1024 ^ 5"
    using bd(1) below by (rule le_less_trans)
  then have lt: "?i < 5"
    by (simp only: power_strict_increasing_iff [of "1024::nat"] one_less_numeral_iff semiring_norm)
  have "formatSize b = toFixed1 b (1024 ^ ?i) @ '' '' @ units ! ?i"
    using assms(1) lt by (simp add: formatSize_def unitAt_def units_def Let_def)
  with lt bd show ?thesis by blast
qed

lemma formatSize_zero: "formatSize 0 = ''0 B''"
  by (simp add: formatSize_def)

subsection \<open>Tokens of a run request\<close>

lemma showNat_nonempty: "showNat n \<noteq> []"
  by (subst showNat.simps) simp

lemma showInt_nonempty: "showInt i \<noteq> []"
  by (simp add: showInt_def showNat_nonempty)

lemma portSpec_nonempty: "portSpec p \<noteq> []"
  by (simp add: portSpec_def showInt_nonempty)

lemma volSpec_nonempty: "volSpec v \<noteq> []"
  by (simp add: volSpec_def)

lemma mountSpec_nonempty: "mountSpec m \<noteq> []"
  by (simp add: mountSpec_def)

lemma keyValue_nonempty: "keyValue kv \<noteq> []"
  by (simp add: keyValue_def)

lemma pushString_no_empty: "[] \<notin> set (pushString (c # f) v)"
  by (cases v) (simp_all add: pushString_def eq_commute [of "[]"])

lemma pushFlag_no_empty: "[] \<notin> set (pushFlag (c # f) v)"
  by (simp add: pushFlag_def)

lemma concat_pairs_empty:
  "([] \<in> set (concat (map (\<lambda>x. [c # f, spec x]) xs))) = (\<exists>x \<in> set xs. spec x = [])"
  by (induction xs) (simp_all add: eq_commute [of "[]"])

lemma pushEach_empty_iff:
  "([] \<in> set (pushEach (c # f) spec v)) = (\<exists>xs. v = Some xs \<and> (\<exists>x \<in> set xs. spec x = []))"
  by (cases v) (simp_all add: pushEach_def concat_pairs_empty del: set_concat)

lemma show8080: "showInt 8080 = ''8080''" "showInt 80 = ''80''"
  by (simp_all add: showInt_def showNat.simps digitChar_def)

lemma run_example:
  "runContainerArgs ((minimalRun img)\<lparr>ports := Some [webPort], volumes := Some [dataVolume]\<rparr>)
     = [''run'', ''--publish'', ''8080:80'', ''--volume'', ''/data:/app:ro'', img]"
  by (simp add: runContainerArgs_def minimalRun_def pushString_def pushFlag_def pushEach_def
      portSpec_def volSpec_def webPort_def dataVolume_def show8080)

lemma run_minimal: "runContainerArgs (minimalRun img) = [''run'', img]"
  by (simp add: runContainerArgs_def minimalRun_def pushString_def pushFlag_def pushEach_def)

lemma cpus_no_empty:
  "[] \<notin> set (case c of Some n \<Rightarrow> if n \<noteq> 0 then [''--cpus'', showInt n] else [] | None \<Rightarrow> [])"
  by (cases c) (simp_all add: showInt_nonempty eq_commute [of "[]"])

lemma run_empty_token:
  "([] \<in> set (runContainerArgs options))
     = (run_image options = []
        \<or> (\<exists>c. cmd options = Some c \<and> [] \<in> set c)
        \<or> (\<exists>d. dns options = Some d \<and> [] \<in> set d)
        \<or> (\<exists>d. dnsSearch options = Some d \<and> [] \<in> set d))"
proof -
  have c: "([] \<in> set (case cmd options of Some c \<Rightarrow> c | None \<Rightarrow> []))
             = (\<exists>c. cmd options = Some c \<and> [] \<in> set c)"
    by (cases "cmd options") simp_all
  have i: "([] \<in> set [run_image options]) = (run_image options = [])"
    by auto
  have d: "\<And>c f v. ([] \<in> set (pushEach (c # f) (\<lambda>d. d) v)) = (\<exists>d. v = Some d \<and> [] \<in> set d)"
    by (simp add: pushEach_empty_iff)
  have k: "\<And>c f v. [] \<notin> set (pushEach (c # f) keyValue v)"
    by (simp add: pushEach_empty_iff keyValue_nonempty)
  have p: "\<And>c f v. [] \<notin> set (pushEach (c # f) portSpec v)"
    by (simp add: pushEach_empty_iff portSpec_nonempty)
  have v: "\<And>c f v. [] \<notin> set (pushEach (c # f) volSpec v)"
    by (simp add: pushEach_empty_iff volSpec_nonempty)
  have m: "\<And>c f v. [] \<notin> set (pushEach (c # f) mountSpec v)"
    by (simp add: pushEach_empty_iff mountSpec_nonempty)
  have r: "[] \<notin> set [''run'']"
    by simp
  have "([] \<in> set (runContainerArgs options))
     = (run_image options = []
        \<or> (\<exists>c. cmd options = Some c \<and> [] \<in> set c)
        \<or> (\<exists>d. dns options = Some d \<and> [] \<in> set d)
        \<or> (\<exists>d. dnsSearch options = Some d \<and> [] \<in> set d))"
    unfolding runContainerArgs_def set_append Un_iff
    apply (simp only: pushString_no_empty pushFlag_no_empty cpus_no_empty c i d k p v m r
        simp_thms)
    apply blast
    done
  then show ?thesis .
qed

lemma floorLog1024_two_pebibytes: "floorLog1024 2251799813685248 = 5"
  by (simp add: floorLog1024.simps)

lemma length_pushString: "length (pushString flag v) = stringTokens v"
  by (cases v) (simp_all add: pushString_def stringTokens_def)

lemma length_pushFlag: "length (pushFlag flag v) = flagTokens v"
  by (cases v) (simp_all add: pushFlag_def flagTokens_def)

lemma length_concat_pairs: "length (concat (map (\<lambda>x. [flag, spec x]) xs)) = 2 * length xs"
  by (induction xs) simp_all

lemma length_pushEach: "length (pushEach flag spec v) = listTokens v"
  by (cases v) (simp_all add: pushEach_def listTokens_def length_concat_pairs del: length_concat)

lemma length_cpus:
  "length (case c of Some n \<Rightarrow> if n \<noteq> 0 then [''--cpus'', showInt n] else [] | None \<Rightarrow> [])
     = numberTokens c"
  by (cases c) (simp_all add: numberTokens_def)

lemma length_cmd: "length (case c of Some ws \<Rightarrow> ws | None \<Rightarrow> []) = wordTokens c"
  by (cases c) (simp_all add: wordTokens_def)

lemma run_token_count:
  "length (runContainerArgs options) =
     2 + stringTokens (name options) + flagTokens (detach options) + flagTokens (remove options)
       + flagTokens (interactive options) + flagTokens (tty options) + listTokens (env options)
       + stringTokens (envFile options) + listTokens (ports options)
       + listTokens (volumes options) + listTokens (mounts options)
       + stringTokens (network options) + stringTokens (workdir options)
       + stringTokens (user options) + numberTokens (cpus options)
       + stringTokens (memory options) + stringTokens (platform options)
       + stringTokens (entrypoint options) + listTokens (labels options)
       + listTokens (dns options) + listTokens (dnsSearch options)
       + flagTokens (rosetta options) + flagTokens (ssh options) + wordTokens (cmd options)"
  unfolding runContainerArgs_def length_append length_pushString length_pushFlag
    length_pushEach length_cpus length_cmd
  by simp

section \<open>Refresh scheduling\<close>

text \<open>
  Claim C1. For every resource kind, a scheduled tick that fires while a refresh of that
  kind is in flight is said to be a no-op, so that at most one refresh process is in flight
  per kind. The providers have no such guard: the timer callback calls \<^verbatim>\<open>refresh\<close>
  unconditionally. Below, a second tick of the containers provider fires while the first
  refresh is pending: it changes the state, and two processes are in flight.
\<close>

theorem tick_while_refreshing_counterexample:
  "(let cfg = loadConfig defaultSettings;
        p1 = ContainersProvider_tick cfg (newContainersProvider cfg);
        p2 = ContainersProvider_tick cfg p1
    in refreshTimer p1 = Some 5000 \<and> pending p1 = 1 \<and> p2 \<noteq> p1 \<and> pending p2 = 2
       \<and> launched p2 = [[''list'', ''--format'', ''json'', ''--all''],
                         [''list'', ''--format'', ''json'', ''--all'']])"
  by (simp add: loadConfig_default Let_def ContainersProvider_tick_def
      ContainersProvider_refreshStart_def refreshStart_def newContainersProvider_def
      startAutoRefresh_def listContainersArgs_def)

text \<open>
  Claim C1, as the code has it: for every resource kind, every tick starts a new refresh
  with a CLI process of its own, whatever the number of refreshes in flight; \<open>n\<close> ticks
  that fire before any refresh settles add \<open>n\<close> processes in flight.
\<close>

theorem every_tick_starts_a_refresh:
  "launched (ContainersProvider_tick cfg c)
     = launched c @ [listContainersArgs (showStoppedContainers cfg)]
   \<and> pending (ContainersProvider_tick cfg c) = pending c + 1
   \<and> launched (ImagesProvider_tick p) = launched p @ [listImagesArgs]
   \<and> pending (ImagesProvider_tick p) = pending p + 1
   \<and> launched (VolumesProvider_tick v) = launched v @ [listVolumesArgs]
   \<and> pending (VolumesProvider_tick v) = pending v + 1
   \<and> launched (NetworksProvider_tick w) = launched w @ [listNetworksArgs]
   \<and> pending (NetworksProvider_tick w) = pending w + 1
   \<and> pending ((ContainersProvider_tick cfg ^^ n) c) = pending c + n
   \<and> pending ((ImagesProvider_tick ^^ n) p) = pending p + n
   \<and> pending ((VolumesProvider_tick ^^ n) v) = pending v + n
   \<and> pending ((NetworksProvider_tick ^^ n) w) = pending w + n"
proof -
  have c: "ContainersProvider_tick cfg
             = refreshStart (listContainersArgs (showStoppedContainers cfg))"
    by (rule ext) (simp add: ContainersProvider_tick_def ContainersProvider_refreshStart_def)
  have i: "(ImagesProvider_tick :: 'b Provider \<Rightarrow> 'b Provider) = refreshStart listImagesArgs"
    by (rule ext) (simp add: ImagesProvider_tick_def ImagesProvider_refreshStart_def)
  have v: "VolumesProvider_tick = refreshStart listVolumesArgs"
    by (rule ext) (simp add: VolumesProvider_tick_def VolumesProvider_refreshStart_def)
  have w: "NetworksProvider_tick = refreshStart listNetworksArgs"
    by (rule ext) (simp add: NetworksProvider_tick_def NetworksProvider_refreshStart_def)
  show ?thesis
    unfolding c i v w by (simp add: refreshStart_funpow) (simp add: refreshStart_def)
qed

section \<open>Failed refreshes\<close>

text \<open>
  Claim C2. For every resource kind, a refresh whose CLI invocation is unsuccessful is said
  to leave the cached snapshot unchanged and to emit no change notification. The list
  operations return the empty list for an unsuccessful result, and \<^verbatim>\<open>refresh\<close> assigns
  and fires whenever the list operation returns: below, a populated containers provider is
  emptied by a failing invocation, and its observers are notified.
\<close>

theorem failed_refresh_counterexample:
  "\<not> success (execute Map.empty True daemonDown)
   \<and> items populated = [webContainer]
   \<and> items (ContainersProvider_refreshFinish Map.empty daemonDown populated) = []
   \<and> fired (ContainersProvider_refreshFinish Map.empty daemonDown populated)
       = fired populated + 1"
  by (simp add: daemonDown_def populated_def ContainersProvider_refreshFinish_def
      listContainers_def listFrom_def)

text \<open>
  Claim C2, as the code has it: for every resource kind, when the CLI invocation of a
  refresh is unsuccessful, the cached list becomes the empty list and one change
  notification is emitted.
\<close>

theorem failed_refresh_empties_and_notifies:
  assumes "\<not> success (execute jsonParse True outcome)"
  shows "items (ContainersProvider_refreshFinish jsonParse outcome c) = []
     \<and> fired (ContainersProvider_refreshFinish jsonParse outcome c) = fired c + 1
     \<and> items (ImagesProvider_refreshFinish parseRawImage jsonParse outcome p) = []
     \<and> fired (ImagesProvider_refreshFinish parseRawImage jsonParse outcome p) = fired p + 1
     \<and> items (VolumesProvider_refreshFinish jsonParse outcome v) = []
     \<and> fired (VolumesProvider_refreshFinish jsonParse outcome v) = fired v + 1
     \<and> items (NetworksProvider_refreshFinish jsonParse outcome w) = []
     \<and> fired (NetworksProvider_refreshFinish jsonParse outcome w) = fired w + 1"
  using assms
  by (simp add: ContainersProvider_refreshFinish_def ImagesProvider_refreshFinish_def
      VolumesProvider_refreshFinish_def NetworksProvider_refreshFinish_def refreshFinish_def
      listContainers_def listImages_def listVolumes_def listNetworks_def listFrom_failed)

theorem failed_refresh_witness:
  "\<not> success (execute Map.empty True daemonDown)
   \<and> items (ContainersProvider_refreshFinish Map.empty daemonDown populated) = []
   \<and> fired (ContainersProvider_refreshFinish Map.empty daemonDown populated) = 2"
proof -
  have f: "\<not> success (execute Map.empty True daemonDown)"
    by (simp add: daemonDown_def)
  note t = failed_refresh_empties_and_notifies [OF f, where c = populated]
  show ?thesis
    using f t [THEN conjunct1] t [THEN conjunct2, THEN conjunct1]
    by (simp add: populated_def)
qed

section \<open>Undecodable output\<close>

text \<open>
  Claim C3. For every invocation with \<^verbatim>\<open>parseJson = true\<close> whose process exits
  successfully, an output that fails to decode as JSON, the empty output included, is said
  to give \<^verbatim>\<open>success = false\<close> with the error text \<^verbatim>\<open>failed to parse JSON output\<close>
  and exit code 0. The gateway decodes only when \<^verbatim>\<open>stdout.trim()\<close> is not empty: on the
  empty output, which is not a JSON text (the decoder below rejects it, as
  \<^verbatim>\<open>JSON.parse\<close> does), the result is a success carrying the raw text.
\<close>

theorem execute_blank_stdout_counterexample:
  "(Map.empty :: string \<Rightarrow> json option) [] = None
   \<and> execute Map.empty True (Resolved [] []) =
       \<lparr> success = True, data = Some (JStr []), error = None, exitCode = JNum 0 \<rparr>"
  by (simp add: trim_def)

text \<open>
  Claim C3, as the code has it: for every invocation with \<^verbatim>\<open>parseJson = true\<close> whose
  process exits successfully, an output with a character that is not white space and that
  fails to decode gives \<^verbatim>\<open>success = false\<close>, the error text
  \<^verbatim>\<open>Failed to parse JSON output\<close> and exit code 0; an output that is empty or all white
  space is not decoded and gives \<^verbatim>\<open>success = true\<close> with the raw output as data and
  exit code 0.
\<close>

theorem execute_undecodable_stdout:
  "((\<exists>c \<in> set stdout. \<not> isWhiteSpace c) \<longrightarrow> jsonParse stdout = None \<longrightarrow>
      execute jsonParse True (Resolved stdout stderr) =
        \<lparr> success = False, data = None, error = Some ''Failed to parse JSON output'',
          exitCode = JNum 0 \<rparr>)
   \<and> ((\<forall>c \<in> set stdout. isWhiteSpace c) \<longrightarrow>
      execute jsonParse True (Resolved stdout stderr) =
        \<lparr> success = True, data = Some (JStr stdout), error = None, exitCode = JNum 0 \<rparr>)"
  using trim_Nil_iff [of stdout] by auto

theorem execute_undecodable_stdout_witness:
  "(\<exists>c \<in> set ''{not json''. \<not> isWhiteSpace c)
   \<and> (Map.empty :: string \<Rightarrow> json option) ''{not json'' = None
   \<and> execute Map.empty True (Resolved ''{not json'' []) =
        \<lparr> success = False, data = None, error = Some ''Failed to parse JSON output'',
          exitCode = JNum 0 \<rparr>
   \<and> isWhiteSpace (CHR 0x0A)
   \<and> execute Map.empty True (Resolved [CHR 0x0A] []) =
        \<lparr> success = True, data = Some (JStr [CHR 0x0A]), error = None, exitCode = JNum 0 \<rparr>"
proof -
  have a: "\<exists>c \<in> set ''{not json''. \<not> isWhiteSpace c"
    by (simp add: isWhiteSpace_def)
  have b: "\<forall>c \<in> set [CHR 0x0A]. isWhiteSpace c"
    by (simp add: isWhiteSpace_def)
  show ?thesis
    using a b execute_undecodable_stdout [of "''{not json''" Map.empty "[]"]
      execute_undecodable_stdout [of "[CHR 0x0A]" Map.empty "[]"]
    by simp
qed

section \<open>Status normalization\<close>


section \<open>Names and creation times of listed containers\<close>

text \<open>
  Claim C10. For every raw record, the container that list-response parsing produces has
  its name equal to its id, both being the record's \<^verbatim>\<open>configuration.id\<close> or the empty
  string when that is absent, and its creation time is the empty string.
\<close>

theorem parsed_container_name_is_id:
  assumes "parseRawContainer raw = Inr c"
  shows "container_name c = container_id c \<and> container_created c = []
     \<and> (\<exists>cfg v. getProp raw ''configuration'' = Inr cfg
           \<and> getProp (orElse cfg (JObj [])) ''id'' = Inr v
           \<and> container_id c = orElse v (JStr []))"
  using assms
  by (auto simp: parseRawContainer_def Let_def split: sum.splits json.splits prod.splits)

theorem parsed_container_name_is_id_witness:
  "(\<exists>c. parseRawContainer webRecord = Inr c
      \<and> container_name c = JStr ''web'' \<and> container_id c = JStr ''web''
      \<and> container_created c = [])
   \<and> (\<exists>c. parseRawContainer (JObj []) = Inr c
      \<and> container_name c = JStr [] \<and> container_id c = JStr []
      \<and> container_created c = [])"
  using parsed_container_name_is_id [OF webRecord_parsed]
    parsed_container_name_is_id [OF emptyRecord_parsed] webRecord_parsed emptyRecord_parsed
  by simp

section \<open>Reading the cached list\<close>

text \<open>
  The containers provider refreshes on a read only until its first load is done: once a
  refresh has assigned a list, empty or not, a read returns the cached list and starts no
  process.
\<close>

lemma containers_read_after_population:
  assumes "listContainers jsonParse outcome = Inr cs"
  shows "ContainersProvider_getChildren cfg (ContainersProvider_refreshFinish jsonParse outcome p)
     = (Returned cs, ContainersProvider_refreshFinish jsonParse outcome p)"
  using assms
  by (simp add: ContainersProvider_getChildren_def ContainersProvider_refreshFinish_def)

text \<open>
  Claim C4. Reading the cached list of a resource kind is said to refresh only on the
  first read before any population; after a first completed population every read returns
  the snapshot without a CLI invocation, also when the snapshot is the empty list. The
  containers provider does so (\<open>containers_read_after_population\<close>), with a flag that its
  comment explains. The images, volumes and networks providers test the length of the
  cached list instead. Below, an images provider completes a refresh that lists no image
  (one notification, nothing pending); the next read does not return: it starts a second
  CLI process and waits for it.
\<close>

theorem images_read_of_empty_snapshot_refreshes:
  "(let p0 = newProvider (loadConfig defaultSettings);
        p1 = ImagesProvider_refreshFinish parseRawImage emptyArrayDecoder (Resolved ''[]'' [])
               (ImagesProvider_refreshStart p0)
    in items p1 = [] \<and> fired p1 = 1 \<and> pending p1 = 0 \<and> launched p1 = [listImagesArgs]
       \<and> fst (ImagesProvider_getChildren sortItems p1) = Awaiting
       \<and> launched (snd (ImagesProvider_getChildren sortItems p1))
           = [listImagesArgs, listImagesArgs]
       \<and> pending (snd (ImagesProvider_getChildren sortItems p1)) = 1)"
  by (simp add: Let_def newProvider_def startAutoRefresh_def loadConfig_default
      ImagesProvider_refreshFinish_def ImagesProvider_refreshStart_def refreshStart_def
      refreshFinish_def listImages_def listFrom_def emptyArrayDecoder_def trim_def
      isWhiteSpace_def ImagesProvider_getChildren_def)

section \<open>Changes of the poll interval\<close>

text \<open>
  Claim C5. A change of the poll interval is said to take effect on every provider's
  scheduler: the timer is torn down and restarted, so that afterwards its period is the new
  interval, and no timer runs when the new interval is 0. Only the CLI wrapper listens for
  configuration changes, and it reloads its configuration value; the providers start their
  timer in their constructor and never again. Below, the extension is activated with the
  default interval of 5000 and the setting is then changed to 1000, or to 0: the wrapper's
  configuration has the new value, and every provider's timer still has the period 5000.
\<close>

theorem interval_change_counterexample:
  "(let ext0 = (activate defaultSettings :: json Extension);
        ext1 = onDidChangeConfiguration True
                 (defaultSettings\<lparr>set_refreshInterval := Some 1000\<rparr>) ext0;
        ext2 = onDidChangeConfiguration True
                 (defaultSettings\<lparr>set_refreshInterval := Some 0\<rparr>) ext0
    in refreshInterval (cli_config ext1) = 1000
       \<and> refreshTimer (containersProvider ext1) = Some 5000
       \<and> refreshTimer (imagesProvider ext1) = Some 5000
       \<and> refreshTimer (volumesProvider ext1) = Some 5000
       \<and> refreshTimer (networksProvider ext1) = Some 5000
       \<and> refreshInterval (cli_config ext2) = 0
       \<and> refreshTimer (imagesProvider ext2) = Some 5000)"
  by (simp add: Let_def activate_def onDidChangeConfiguration_def loadConfig_default
      newProvider_def newContainersProvider_def startAutoRefresh_def)
     (simp add: loadConfig_def defaultSettings_def)

text \<open>
  Claim C5, as the code has it: a change of the configuration replaces the configuration
  value of the CLI wrapper and leaves the timer of every provider as it was; a provider's
  timer has the period that was configured when the provider was constructed (and there is
  none when that interval was not positive).
\<close>

theorem interval_change_leaves_timers:
  "cli_config (onDidChangeConfiguration True st ext) = loadConfig st
   \<and> cli_config (onDidChangeConfiguration False st ext) = cli_config ext
   \<and> refreshTimer (containersProvider (onDidChangeConfiguration affects st ext))
       = refreshTimer (containersProvider ext)
   \<and> refreshTimer (imagesProvider (onDidChangeConfiguration affects st ext))
       = refreshTimer (imagesProvider ext)
   \<and> refreshTimer (volumesProvider (onDidChangeConfiguration affects st ext))
       = refreshTimer (volumesProvider ext)
   \<and> refreshTimer (networksProvider (onDidChangeConfiguration affects st ext))
       = refreshTimer (networksProvider ext)
   \<and> refreshTimer (imagesProvider (activate st0 :: 'i Extension))
       = (if refreshInterval (loadConfig st0) > 0
          then Some (refreshInterval (loadConfig st0)) else None)
   \<and> refreshTimer (containersProvider (activate st0 :: 'i Extension))
       = (if refreshInterval (loadConfig st0) > 0
          then Some (refreshInterval (loadConfig st0)) else None)
   \<and> refreshTimer (volumesProvider (activate st0 :: 'i Extension))
       = (if refreshInterval (loadConfig st0) > 0
          then Some (refreshInterval (loadConfig st0)) else None)
   \<and> refreshTimer (networksProvider (activate st0 :: 'i Extension))
       = (if refreshInterval (loadConfig st0) > 0
          then Some (refreshInterval (loadConfig st0)) else None)
   \<and> refreshTimer
         (containersProvider (onDidChangeConfiguration affects st (activate st0 :: 'i Extension)))
       = (if refreshInterval (loadConfig st0) > 0
          then Some (refreshInterval (loadConfig st0)) else None)
   \<and> refreshTimer
         (imagesProvider (onDidChangeConfiguration affects st (activate st0 :: 'i Extension)))
       = (if refreshInterval (loadConfig st0) > 0
          then Some (refreshInterval (loadConfig st0)) else None)
   \<and> refreshTimer
         (volumesProvider (onDidChangeConfiguration affects st (activate st0 :: 'i Extension)))
       = (if refreshInterval (loadConfig st0) > 0
          then Some (refreshInterval (loadConfig st0)) else None)
   \<and> refreshTimer
         (networksProvider (onDidChangeConfiguration affects st (activate st0 :: 'i Extension)))
       = (if refreshInterval (loadConfig st0) > 0
          then Some (refreshInterval (loadConfig st0)) else None)"
  by (simp add: onDidChangeConfiguration_def activate_def newProvider_def
      newContainersProvider_def startAutoRefresh_def Let_def)

section \<open>Image reference decomposition\<close>

text \<open>
  Claim C6. For every reference string: when its last colon comes after its last slash
  (or there is no slash), the repository is the text before that colon and the tag the text
  after it; otherwise, that is when there is no colon or a slash follows the last colon, the
  repository is the whole string and the tag is \<^verbatim>\<open>latest\<close>. Afterwards a leading
  \<^verbatim>\<open>docker.io/library/\<close>, or else a leading \<^verbatim>\<open>docker.io/\<close>, is removed from the
  repository. The four references of the specification decompose as it says.
\<close>

theorem reference_decomposition:
  "(CHR '':'' \<notin> set t \<and> CHR ''/'' \<notin> set t \<longrightarrow>
      decomposeReference (r @ CHR '':'' # t) = (stripRegistry r, t))
   \<and> (CHR '':'' \<notin> set ref \<longrightarrow> decomposeReference ref = (stripRegistry ref, ''latest''))
   \<and> (CHR '':'' \<notin> set t \<longrightarrow>
      decomposeReference (r @ CHR ''/'' # t) = (stripRegistry (r @ CHR ''/'' # t), ''latest''))
   \<and> stripRegistry (''docker.io/library/'' @ x) = x
   \<and> ((\<nexists>z. x = ''library/'' @ z) \<longrightarrow> stripRegistry (''docker.io/'' @ x) = x)
   \<and> ((\<nexists>z. y = ''docker.io/'' @ z) \<longrightarrow> stripRegistry y = y)
   \<and> decomposeReference ''nginx:latest'' = (''nginx'', ''latest'')
   \<and> decomposeReference ''docker.io/library/nginx:1.25'' = (''nginx'', ''1.25'')
   \<and> decomposeReference ''myregistry.local:5000/app:v2'' = (''myregistry.local:5000/app'', ''v2'')
   \<and> decomposeReference ''myimage'' = (''myimage'', ''latest'')"
proof -
  have e1: "decomposeReference ''nginx:latest'' = (''nginx'', ''latest'')"
    by code_simp
  have e2: "decomposeReference ''docker.io/library/nginx:1.25'' = (''nginx'', ''1.25'')"
    by code_simp
  have e3: "decomposeReference ''myregistry.local:5000/app:v2''
              = (''myregistry.local:5000/app'', ''v2'')"
    by code_simp
  have e4: "decomposeReference ''myimage'' = (''myimage'', ''latest'')"
    by code_simp
  show ?thesis
    using decompose_tagged [of t r] decompose_untagged_no_colon [of ref]
      decompose_untagged_slash [of t r] stripRegistry_library [of x]
      stripRegistry_docker [of x] stripRegistry_other [of y] e1 e2 e3 e4
    unfolding startsWith_iff by blast
qed

theorem reference_decomposition_witness:
  "CHR '':'' \<notin> set ''v2'' \<and> CHR ''/'' \<notin> set ''v2''
   \<and> decomposeReference (''docker.io/acme/app'' @ CHR '':'' # ''v2'') = (''acme/app'', ''v2'')
   \<and> CHR '':'' \<notin> set ''docker.io/library/redis''
   \<and> decomposeReference ''docker.io/library/redis'' = (''redis'', ''latest'')
   \<and> CHR '':'' \<notin> set ''app''
   \<and> decomposeReference (''localhost:5000'' @ CHR ''/'' # ''app'') = (''localhost:5000/app'', ''latest'')
   \<and> (\<nexists>z. ''acme/app'' = ''library/'' @ z)
   \<and> (\<nexists>z. ''localhost:5000/app'' = ''docker.io/'' @ z)"
proof -
  note t = reference_decomposition
    [where t = "''v2''" and r = "''docker.io/acme/app''" and ref = "''docker.io/library/redis''"
       and x = "''acme/app''" and y = "''localhost:5000/app''"]
  note u = reference_decomposition
    [where t = "''app''" and r = "''localhost:5000''" and ref = "''docker.io/library/redis''"
       and x = "''redis''" and y = "''localhost:5000/app''"]
  have a: "\<nexists>z. ''acme/app'' = ''library/'' @ z"
    by simp
  have b: "\<nexists>z. ''localhost:5000/app'' = ''docker.io/'' @ z"
    by simp
  show ?thesis
    using t u a b by simp
qed

section \<open>Size formatting\<close>

text \<open>
  Claim C7. For every byte count, \<^verbatim>\<open>formatSize\<close> is said to render it in the largest
  applicable unit among B, KiB, MiB, GiB and TiB with one decimal place, within rounding,
  and zero as \<^verbatim>\<open>0 B\<close>. For the counts up to \<open>1024^5 - 4\<close> the evaluation does so
  (\<open>formatSize_in_range\<close>, \<open>tenths_rounds\<close>, \<open>formatSize_zero\<close>). The table of units ends
  at TiB and the index is not bounded by it: for two pebibytes the index is 5, past the end
  of the table, and the text carries no unit of the table.
\<close>

theorem formatSize_beyond_tebibytes:
  "formatSize 2251799813685248 = ''2.0 undefined''"
  by (simp add: formatSize_def floorLog1024_two_pebibytes tenths_def showNat.simps
      digitChar_def Let_def toFixed1_def unitAt_def units_def)

section \<open>Arguments of a run request\<close>

text \<open>
  Claim C9. The run request with the port 8080 to 80 and the read-only volume
  \<^verbatim>\<open>/data\<close> to \<^verbatim>\<open>/app\<close> gives exactly one \<^verbatim>\<open>--publish\<close> with the value
  \<^verbatim>\<open>8080:80\<close> and exactly one \<^verbatim>\<open>--volume\<close> with the value \<^verbatim>\<open>/data:/app:ro\<close>; and
  for every run request an absent optional field contributes no token. The number of
  tokens of a request is two (\<^verbatim>\<open>run\<close> and the image) plus the tokens of its fields, which
  are none for an absent field; the request without optional fields gives \<^verbatim>\<open>run\<close> and the
  image; and the argument vector has an empty token only where the image, a word of the
  command or a DNS entry of the request is the empty string.
\<close>

theorem run_arguments:
  "runContainerArgs ((minimalRun img)\<lparr>ports := Some [webPort], volumes := Some [dataVolume]\<rparr>)
     = [''run'', ''--publish'', ''8080:80'', ''--volume'', ''/data:/app:ro'', img]
   \<and> runContainerArgs (minimalRun img) = [''run'', img]
   \<and> length (runContainerArgs options) =
       2 + stringTokens (name options) + flagTokens (detach options)
         + flagTokens (remove options) + flagTokens (interactive options)
         + flagTokens (tty options) + listTokens (env options)
         + stringTokens (envFile options) + listTokens (ports options)
         + listTokens (volumes options) + listTokens (mounts options)
         + stringTokens (network options) + stringTokens (workdir options)
         + stringTokens (user options) + numberTokens (cpus options)
         + stringTokens (memory options) + stringTokens (platform options)
         + stringTokens (entrypoint options) + listTokens (labels options)
         + listTokens (dns options) + listTokens (dnsSearch options)
         + flagTokens (rosetta options) + flagTokens (ssh options) + wordTokens (cmd options)
   \<and> stringTokens None = 0 \<and> flagTokens None = 0 \<and> listTokens (None :: string list option) = 0
   \<and> numberTokens None = 0 \<and> wordTokens None = 0
   \<and> ([] \<in> set (runContainerArgs options))
       = (run_image options = []
          \<or> (\<exists>c. cmd options = Some c \<and> [] \<in> set c)
          \<or> (\<exists>d. dns options = Some d \<and> [] \<in> set d)
          \<or> (\<exists>d. dnsSearch options = Some d \<and> [] \<in> set d))"
proof -
  have absent: "stringTokens None = 0 \<and> flagTokens None = 0
      \<and> listTokens (None :: string list option) = 0
      \<and> numberTokens None = 0 \<and> wordTokens None = 0"
    by (simp add: stringTokens_def flagTokens_def listTokens_def numberTokens_def
        wordTokens_def)
  show ?thesis
    using run_example [of img] run_minimal [of img] run_token_count [of options]
      run_empty_token [of options] absent
    by blast
qed

end
